theory Spec2Isabelle
  imports Main "HOL-Library.AList" "HOL-Library.Word"
begin

section \<open>Message elements of satori-python (src/satori/element.py)\<close>

text \<open>
  The module turns the parser's attributed tree (\<open>RawElement\<close>) into typed
  elements (\<open>transform\<close>) and typed elements into markup text (\<open>__str__\<close>).
  The embedding keeps Python's view of an element: an instance of a class with
  an ordered instance dictionary (\<open>vars(self)\<close>), so that the dataclass
  constructor, \<open>setattr\<close> and attribute reads are the operations the source uses.

  Scope of the model.
  \<^item> Strings are byte strings; Python's unbounded integers are \<open>int\<close>; a float is
    kept as the text that \<open>str\<close> gives for it (see \<open>pyfloat\<close>).
  \<^item> A dictionary is an association list in insertion order. Python dictionaries
    have no duplicate keys, and an association list that stands for one is meant to
    have distinct keys.
  \<^item> Attribute names are ordinary names: the three names that the object type
    itself guards (\<open>__class__\<close>, \<open>__dict__\<close>, \<open>__weakref__\<close>) are not modelled.
\<close>

subsection \<open>Python values and exceptions\<close>

datatype error = ValueError | TypeError | KeyError | IndexError | AttributeError
  | Unmodelled  \<comment> \<open>the one outcome the embedding does not compute, see \<open>scalar_items\<close>\<close>

text \<open>
  A Python \<open>float\<close>. The module formats floats and tests their truth and does nothing
  else with them, so a float is represented by the text that \<open>str\<close> gives for it (the
  shortest text that reads back as the same float, such as \<open>1.5\<close>, \<open>1e-07\<close>, \<open>inf\<close>):
  different floats have different texts, and the two zeros are \<open>0.0\<close> and \<open>-0.0\<close>.
\<close>

datatype pyfloat = PyFloat (float_text: string)

text \<open>
  Attribute values: \<open>None\<close>, \<open>bool\<close>, \<open>int\<close>, \<open>float\<close>, \<open>str\<close> and the \<open>...\<close>
  sentinel.
\<close>

datatype scalar = PNone | PBool bool | PInt int | PFloat pyfloat | PStr string | PEllipsis

text \<open>
  Modelled from the spec: \<open>RawElement\<close>, the node type of parser.py, which is not among
  the sources. Spec, section 3: a tag, an ordered mapping from attribute names to
  string, number, boolean or null, and an ordered sequence of child nodes. The source
  reads the three as \<open>.type\<close>, \<open>.attrs\<close> and \<open>.children\<close>.
\<close>

datatype raw_element =
  RawElement (raw_type: string) (raw_attrs: "(string \<times> scalar) list") (raw_children: "raw_element list")

text \<open>The classes of element.py; \<open>Custom\<close> instances have a constructor of their own below.\<close>

datatype cls = Element | Text | At | Sharp | Link
  | Resource | Image_cls | Audio | Video | File
  | Style | Bold | Italic | Underline | Strikethrough | Spoiler | Code
  | Superscript | Subscript | Br | Paragraph
  | Message | Quote | Author | Raw

text \<open>
  An instance is its class and its instance dictionary. A \<open>Custom\<close> instance never
  receives extra attributes (it is built by its constructor only), so it is kept as its
  three fields \<open>type\<close>, \<open>attrs\<close>, \<open>children\<close>.
\<close>

datatype element =
    Obj cls "(string \<times> val) list"
  | Custom string "(string \<times> scalar) list" "element list option"
and val = Scalar scalar | ElemList "element list"

subsection \<open>Dictionaries, truth values, text\<close>

text \<open>\<open>d[k]\<close> raises \<open>KeyError\<close> on a missing key.\<close>

definition dict_get :: "(string \<times> 'v) list \<Rightarrow> string \<Rightarrow> error + 'v" where
  "dict_get d k = (case map_of d k of None \<Rightarrow> Inl KeyError | Some v \<Rightarrow> Inr v)"

text \<open>\<open>setattr(obj, k, v)\<close>: the key keeps its place when present, else goes last.\<close>

fun setattr :: "element \<Rightarrow> string \<Rightarrow> val \<Rightarrow> element" where
  "setattr (Obj c vs) k v = Obj c (AList.update k v vs)"
| "setattr (Custom t attrs children) k v = Custom t attrs children"

fun truthy_scalar :: "scalar \<Rightarrow> bool" where
  "truthy_scalar PNone = False"
| "truthy_scalar (PBool b) = b"
| "truthy_scalar (PInt i) = (i \<noteq> 0)"
| "truthy_scalar (PFloat f) = (float_text f \<noteq> ''0.0'' \<and> float_text f \<noteq> ''-0.0'')"
| "truthy_scalar (PStr s) = (s \<noteq> [])"
| "truthy_scalar PEllipsis = True"

fun truthy :: "val \<Rightarrow> bool" where
  "truthy (Scalar s) = truthy_scalar s"
| "truthy (ElemList es) = (es \<noteq> [])"

text \<open>\<open>sep.join(xs)\<close>.\<close>

fun join :: "string \<Rightarrow> string list \<Rightarrow> string" where
  "join sep [] = []"
| "join sep [x] = x"
| "join sep (x # y # ys) = x @ sep @ join sep (y # ys)"

text \<open>A list of results is the first error, or all the values.\<close>

fun sequence :: "(error + 'a) list \<Rightarrow> error + 'a list" where
  "sequence [] = Inr []"
| "sequence (Inl e # rs) = Inl e"
| "sequence (Inr x # rs) = (case sequence rs of Inl e \<Rightarrow> Inl e | Inr xs \<Rightarrow> Inr (x # xs))"

subsection \<open>Dataclass fields and construction\<close>

text \<open>
  \<open>fields(cls)\<close> in declaration order, each with its default (\<open>None\<close> here: the field is
  required). The init-only \<open>extra\<close> of \<open>Resource\<close> is not a field.
\<close>

definition optional :: "string \<Rightarrow> string \<times> val option" where
  "optional name = (name, Some (Scalar PNone))"

definition required :: "string \<Rightarrow> string \<times> val option" where
  "required name = (name, None)"

fun fields :: "cls \<Rightarrow> (string \<times> val option) list" where
  "fields Element = []"
| "fields At = [optional ''id'', optional ''name'', optional ''role'', optional ''type'']"
| "fields Sharp = [required ''id'', optional ''name'']"
| "fields Link = [required ''url'', optional ''display'']"
| "fields Image_cls = [required ''src'', optional ''cache'', optional ''timeout'',
     optional ''width'', optional ''height'']"
| "fields Resource = [required ''src'', optional ''cache'', optional ''timeout'']"
| "fields Audio = [required ''src'', optional ''cache'', optional ''timeout'']"
| "fields Video = [required ''src'', optional ''cache'', optional ''timeout'']"
| "fields File = [required ''src'', optional ''cache'', optional ''timeout'']"
| "fields Message = [optional ''id'', optional ''forward'', optional ''content'']"
| "fields Quote = [optional ''id'', optional ''forward'', optional ''content'']"
| "fields Author = [required ''id'', optional ''nickname'', optional ''avatar'']"
| "fields Raw = [required ''content'']"
| "fields c = [required ''text'']"

definition field_names :: "cls \<Rightarrow> string list" where
  "field_names c = map fst (fields c)"

text \<open>
  \<open>cls(**kwargs)\<close>: the generated \<open>__init__\<close> raises \<open>TypeError\<close> on an unexpected
  keyword or a missing required field, and assigns the fields in declaration order.
  \<open>Resource.__post_init__\<close> receives \<open>extra = None\<close> on every path of this module
  (see \<open>Resource_of\<close>) and then does nothing.
\<close>

fun init_fields :: "(string \<times> val option) list \<Rightarrow> (string \<times> val) list \<Rightarrow> error + (string \<times> val) list" where
  "init_fields [] kwargs = Inr []"
| "init_fields ((f, d) # fs) kwargs =
     (case (case map_of kwargs f of Some v \<Rightarrow> Some v | None \<Rightarrow> d) of
        None \<Rightarrow> Inl TypeError
      | Some v \<Rightarrow> (case init_fields fs kwargs of Inl e \<Rightarrow> Inl e | Inr vs \<Rightarrow> Inr ((f, v) # vs)))"

definition init :: "cls \<Rightarrow> (string \<times> val) list \<Rightarrow> error + element" where
  "init c kwargs =
     (if \<exists>k \<in> set (map fst kwargs). k \<notin> set (field_names c) then Inl TypeError
      else case init_fields (fields c) kwargs of Inl e \<Rightarrow> Inl e | Inr vs \<Rightarrow> Inr (Obj c vs))"

subsection \<open>Deserialisation: \<open>from_raw\<close> and \<open>transform\<close>\<close>

text \<open>The \<open>for k, v in raw.attrs.items(): if keep k: setattr(res, k, v)\<close> loop.\<close>

fun setattr_loop :: "(string \<Rightarrow> bool) \<Rightarrow> (string \<times> scalar) list \<Rightarrow> element \<Rightarrow> element" where
  "setattr_loop keep [] res = res"
| "setattr_loop keep ((k, v) # kvs) res =
     setattr_loop keep kvs (if keep k then setattr res k (Scalar v) else res)"

text \<open>\<open>Element.from_raw\<close>, inherited by every class but \<open>Link\<close> and the styles.\<close>

definition Element_from_raw :: "cls \<Rightarrow> raw_element \<Rightarrow> error + element" where
  "Element_from_raw c raw =
     (let attrs = filter (\<lambda>(k, v). k \<in> set (field_names c)) (raw_attrs raw) in
      case init c (map (\<lambda>(k, v). (k, Scalar v)) attrs) of
        Inl e \<Rightarrow> Inl e
      | Inr result \<Rightarrow> Inr (setattr_loop (\<lambda>k. k \<notin> set (field_names c)) (raw_attrs raw) result))"

text \<open>
  \<open>Link.from_raw\<close>: \<open>raw.attrs["href"]\<close> is read first, then the first child's
  \<open>attrs["text"]\<close> when there is a child.
\<close>

definition Link_from_raw :: "raw_element \<Rightarrow> error + element" where
  "Link_from_raw raw =
     (case dict_get (raw_attrs raw) ''href'' of
        Inl e \<Rightarrow> Inl e
      | Inr href \<Rightarrow>
         (case (case raw_children raw of
                  [] \<Rightarrow> Inr PNone
                | child # _ \<Rightarrow> dict_get (raw_attrs child) ''text'') of
            Inl e \<Rightarrow> Inl e
          | Inr display \<Rightarrow>
             (case init Link [(''url'', Scalar href), (''display'', Scalar display)] of
                Inl e \<Rightarrow> Inl e
              | Inr res \<Rightarrow> Inr (setattr_loop (\<lambda>k. k \<noteq> ''href'') (raw_attrs raw) res))))"

text \<open>\<open>Style.from_raw\<close>: \<open>raw.children[0]\<close> raises \<open>IndexError\<close> on a childless node.\<close>

definition Style_from_raw :: "cls \<Rightarrow> raw_element \<Rightarrow> error + element" where
  "Style_from_raw c raw =
     (case raw_children raw of
        [] \<Rightarrow> Inl IndexError
      | child # _ \<Rightarrow>
         (case dict_get (raw_attrs child) ''text'' of
            Inl e \<Rightarrow> Inl e
          | Inr t \<Rightarrow>
             (case init c [(''text'', Scalar t)] of
                Inl e \<Rightarrow> Inl e
              | Inr res \<Rightarrow> Inr (setattr_loop (\<lambda>k. True) (raw_attrs raw) res))))"

definition ELEMENT_TYPE_MAP :: "(string \<times> cls) list" where
  "ELEMENT_TYPE_MAP =
     [(''text'', Text), (''at'', At), (''sharp'', Sharp), (''img'', Image_cls),
      (''audio'', Audio), (''video'', Video), (''file'', File), (''author'', Author)]"

definition STYLE_TYPE_MAP :: "(string \<times> cls) list" where
  "STYLE_TYPE_MAP =
     [(''b'', Bold), (''strong'', Bold), (''i'', Italic), (''em'', Italic),
      (''u'', Underline), (''ins'', Underline), (''s'', Strikethrough),
      (''del'', Strikethrough), (''spl'', Spoiler), (''code'', Code),
      (''sup'', Superscript), (''sub'', Subscript), (''p'', Paragraph)]"

text \<open>
  \<open>transform\<close>: the loop appends one element per node and stops at the first node that
  raises; \<open>transform_elem\<close> is the loop body. For \<open>message\<close> and \<open>quote\<close> the element
  is built first and \<open>content\<close> assigned afterwards, only when the node has children.
\<close>

fun transform :: "raw_element list \<Rightarrow> error + element list"
  and transform_elem :: "raw_element \<Rightarrow> error + element" where
  "transform [] = Inr []"
| "transform (elem # elements) =
     (case transform_elem elem of
        Inl e \<Rightarrow> Inl e
      | Inr x \<Rightarrow> (case transform elements of Inl e \<Rightarrow> Inl e | Inr msg \<Rightarrow> Inr (x # msg)))"
| "transform_elem (RawElement t attrs children) =
     (case map_of ELEMENT_TYPE_MAP t of
        Some seg_cls \<Rightarrow> Element_from_raw seg_cls (RawElement t attrs children)
      | None \<Rightarrow>
         if t = ''a'' \<or> t = ''link'' then Link_from_raw (RawElement t attrs children)
         else (case map_of STYLE_TYPE_MAP t of
            Some seg_cls \<Rightarrow> Style_from_raw seg_cls (RawElement t attrs children)
          | None \<Rightarrow>
             if t = ''br'' \<or> t = ''newline'' then init Br [(''text'', Scalar (PStr [CHR 0x0A]))]
             else if t = ''message'' then
               (case Element_from_raw Message (RawElement t attrs children) of
                  Inl e \<Rightarrow> Inl e
                | Inr res \<Rightarrow>
                   if children \<noteq> [] then
                     (case transform children of
                        Inl e \<Rightarrow> Inl e
                      | Inr content \<Rightarrow> Inr (setattr res ''content'' (ElemList content)))
                   else Inr res)
             else if t = ''quote'' then
               (case Element_from_raw Quote (RawElement t attrs children) of
                  Inl e \<Rightarrow> Inl e
                | Inr res \<Rightarrow>
                   if children \<noteq> [] then
                     (case transform children of
                        Inl e \<Rightarrow> Inl e
                      | Inr content \<Rightarrow> Inr (setattr res ''content'' (ElemList content)))
                   else Inr res)
             else (case transform children of
                     Inl e \<Rightarrow> Inl e
                   | Inr cs \<Rightarrow> Inr (Custom t attrs (Some cs)))))"

subsection \<open>Serialisation: \<open>__str__\<close>\<close>

text \<open>A text between two double quotes, as in \<open>key="..."\<close>.\<close>

definition quoted :: "string \<Rightarrow> string" where
  "quoted s = CHR 0x22 # s @ [CHR 0x22]"

text \<open>\<open>str\<close> of an integer (decimal digits, a minus sign when negative) and of a scalar.\<close>

fun str_nat :: "nat \<Rightarrow> string" where
  "str_nat n = (if n < 10 then [''0123456789'' ! n] else str_nat (n div 10) @ [''0123456789'' ! (n mod 10)])"

definition str_int :: "int \<Rightarrow> string" where
  "str_int i = (if i < 0 then CHR ''-'' # str_nat (nat (- i)) else str_nat (nat i))"

fun py_str :: "scalar \<Rightarrow> string" where
  "py_str PNone = ''None''"
| "py_str (PBool b) = (if b then ''True'' else ''False'')"
| "py_str (PInt i) = str_int i"
| "py_str (PFloat f) = float_text f"
| "py_str (PStr s) = s"
| "py_str PEllipsis = ''Ellipsis''"

text \<open>\<open>k.startswith("_")\<close>.\<close>

fun startswith_underscore :: "string \<Rightarrow> bool" where
  "startswith_underscore [] = False"
| "startswith_underscore (c # cs) = (c = CHR ''_'')"

text \<open>
  The local function \<open>_attr\<close>, written out twice in the source: in \<open>Element.__str__\<close>
  and in \<open>Custom.__str__\<close>. \<open>value is True\<close> and \<open>value is False\<close> come before the
  \<open>isinstance(value, (int, float))\<close> test, so a boolean never reaches the numeric branch,
  which formats an \<open>int\<close> or a \<open>float\<close> with \<open>f"{key}={value}"\<close>.
  \<open>esc\<close> is the escaping primitive \<open>escape\<close> of parser.py.
\<close>

fun Element_attr :: "(string \<Rightarrow> string) \<Rightarrow> string \<Rightarrow> scalar \<Rightarrow> string" where
  "Element_attr esc key (PBool True) = key"
| "Element_attr esc key (PBool False) = ''no-'' @ key"
| "Element_attr esc key (PInt i) = key @ ''='' @ str_int i"
| "Element_attr esc key (PFloat f) = key @ ''='' @ float_text f"
| "Element_attr esc key value = key @ ''='' @ quoted (esc (py_str value))"

fun Custom_attr :: "(string \<Rightarrow> string) \<Rightarrow> string \<Rightarrow> scalar \<Rightarrow> string" where
  "Custom_attr esc key (PBool True) = key"
| "Custom_attr esc key (PBool False) = ''no-'' @ key"
| "Custom_attr esc key (PInt i) = key @ ''='' @ str_int i"
| "Custom_attr esc key (PFloat f) = key @ ''='' @ float_text f"
| "Custom_attr esc key value = key @ ''='' @ quoted (esc (py_str value))"

text \<open>
  \<open>self.get_type()\<close>: \<open>self.__class__.__name__.lower()\<close>, overridden by \<open>Image\<close> to
  \<open>img\<close>. The call looks the name up on the instance first, so an instance attribute
  \<open>get_type\<close> (which \<open>setattr\<close> can create from a node attribute) hides the method, and
  calling the value stored there raises \<open>TypeError\<close>.
\<close>

fun class_name_lower :: "cls \<Rightarrow> string" where
  "class_name_lower Element = ''element''"
| "class_name_lower Text = ''text''"
| "class_name_lower At = ''at''"
| "class_name_lower Sharp = ''sharp''"
| "class_name_lower Link = ''link''"
| "class_name_lower Resource = ''resource''"
| "class_name_lower Image_cls = ''image''"
| "class_name_lower Audio = ''audio''"
| "class_name_lower Video = ''video''"
| "class_name_lower File = ''file''"
| "class_name_lower Style = ''style''"
| "class_name_lower Bold = ''bold''"
| "class_name_lower Italic = ''italic''"
| "class_name_lower Underline = ''underline''"
| "class_name_lower Strikethrough = ''strikethrough''"
| "class_name_lower Spoiler = ''spoiler''"
| "class_name_lower Code = ''code''"
| "class_name_lower Superscript = ''superscript''"
| "class_name_lower Subscript = ''subscript''"
| "class_name_lower Br = ''br''"
| "class_name_lower Paragraph = ''paragraph''"
| "class_name_lower Message = ''message''"
| "class_name_lower Quote = ''quote''"
| "class_name_lower Author = ''author''"
| "class_name_lower Raw = ''raw''"

definition get_type :: "cls \<Rightarrow> (string \<times> val) list \<Rightarrow> error + string" where
  "get_type c vs =
     (if ''get_type'' \<in> set (map fst vs) then Inl TypeError
      else Inr (if c = Image_cls then ''img'' else class_name_lower c))"

text \<open>
  Reading \<open>self.name\<close>: the instance dictionary, then the class attribute that a
  dataclass field with a default leaves on the class, else \<open>AttributeError\<close>.
\<close>

definition getattr :: "cls \<Rightarrow> (string \<times> val) list \<Rightarrow> string \<Rightarrow> error + val" where
  "getattr c vs name =
     (case map_of vs name of
        Some v \<Rightarrow> Inr v
      | None \<Rightarrow> (case map_of (fields c) name of Some (Some d) \<Rightarrow> Inr d | _ \<Rightarrow> Inl AttributeError))"

text \<open>
  \<open>escape(v)\<close> on an attribute value. The primitive works on strings (spec, sections 1
  and 6); on a value that is not a string its string methods are missing, which is an
  \<open>AttributeError\<close>.
\<close>

fun escape_val :: "(string \<Rightarrow> string) \<Rightarrow> val \<Rightarrow> error + string" where
  "escape_val esc (Scalar (PStr s)) = Inr (esc s)"
| "escape_val esc v = Inl AttributeError"

text \<open>
  The entries of \<open>vars(self)\<close> that \<open>Element.__str__\<close> hands to \<open>_attr\<close>. No path of this
  module stores a list of elements in an instance that is rendered by
  \<open>Element.__str__\<close>; for such an instance \<open>str(value)\<close> would be the \<open>repr\<close> of the
  list, which the embedding does not compute: the outcome is \<open>Unmodelled\<close>.
\<close>

fun scalar_items :: "(string \<times> val) list \<Rightarrow> error + (string \<times> scalar) list" where
  "scalar_items [] = Inr []"
| "scalar_items ((k, Scalar s) # kvs) =
     (case scalar_items kvs of Inl e \<Rightarrow> Inl e | Inr r \<Rightarrow> Inr ((k, s) # r))"
| "scalar_items ((k, ElemList es) # kvs) = Inl Unmodelled"

text \<open>The tag in the \<open>__str__\<close> of each style class that has a template of its own.\<close>

fun style_tag :: "cls \<Rightarrow> string option" where
  "style_tag Bold = Some ''b''"
| "style_tag Italic = Some ''i''"
| "style_tag Underline = Some ''u''"
| "style_tag Strikethrough = Some ''s''"
| "style_tag Spoiler = Some ''spl''"
| "style_tag Code = Some ''code''"
| "style_tag Superscript = Some ''sup''"
| "style_tag Subscript = Some ''sub''"
| "style_tag Paragraph = Some ''p''"
| "style_tag c = None"

text \<open>Facts for the termination of the renderer: the children are smaller than the parent.\<close>

lemma default_is_None: "map_of (fields c) name = Some (Some d) \<Longrightarrow> d = Scalar PNone"
  by (cases c) (auto simp: optional_def required_def split: if_splits)

lemma getattr_ElemList:
  "getattr c vs name = Inr (ElemList es) \<Longrightarrow> map_of vs name = Some (ElemList es)"
  by (auto simp: getattr_def split: option.splits dest: default_is_None)

lemma size_member: "e \<in> set es \<Longrightarrow> size e \<le> size_list size es"
  by (induction es) auto

lemma size_content:
  "map_of vs name = Some (ElemList es) \<Longrightarrow> e \<in> set es \<Longrightarrow> size e < size (Obj c vs)"
proof (induction vs)
  case Nil
  then show ?case by simp
next
  case (Cons kv vs)
  show ?case
  proof (cases "fst kv = name")
    case True
    with Cons.prems have "snd kv = ElemList es" by (cases kv) simp
    with size_member [OF Cons.prems(2)] show ?thesis by (cases kv) simp
  next
    case False
    with Cons.prems have "map_of vs name = Some (ElemList es)" by (cases kv) simp
    from Cons.IH [OF this Cons.prems(2)] show ?thesis by simp
  qed
qed

lemma size_content':
  "map_of (vs :: (string \<times> val) list) name = Some (ElemList es) \<Longrightarrow> e \<in> set es \<Longrightarrow>
   size e \<le> size_list (size_prod (\<lambda>x. 0) size) vs"
  using size_content [of vs name es e Message] by simp

text \<open>
  \<open>str(element)\<close>, by class: \<open>Custom.__str__\<close>; \<open>Text.__str__\<close> (inherited by the bare
  \<open>Style\<close>); \<open>Link.__str__\<close>; \<open>Br.__str__\<close>; \<open>Raw.__str__\<close> (a \<open>__str__\<close> that returns
  something else than a string is a \<open>TypeError\<close>); \<open>Message.__str__\<close> (inherited by
  \<open>Quote\<close>), where a content that is a string is iterated character by character and
  any other true scalar is not iterable; the styles; and \<open>Element.__str__\<close> for the rest.
  A child that fails to render fails the parent.
\<close>

function str_element :: "(string \<Rightarrow> string) \<Rightarrow> element \<Rightarrow> error + string" where
  "str_element esc (Custom t attrs children) =
     (let a = join '' '' (map (\<lambda>(k, v). Custom_attr esc k v)
                (filter (\<lambda>(k, v). \<not> startswith_underscore k) attrs)) in
      case children of
        Some (e # es) \<Rightarrow>
          (case sequence (map (str_element esc) (e # es)) of
             Inl err \<Rightarrow> Inl err
           | Inr ss \<Rightarrow> Inr (''<'' @ t @ '' '' @ a @ ''>'' @ concat ss @ ''</'' @ t @ ''>''))
      | _ \<Rightarrow> Inr (''<'' @ t @ '' '' @ a @ '' />''))"
| "str_element esc (Obj c vs) =
     (if c = Text \<or> c = Style then
        (case getattr c vs ''text'' of Inl err \<Rightarrow> Inl err | Inr t \<Rightarrow> escape_val esc t)
      else if c = Link then
        (case getattr c vs ''display'' of
           Inl err \<Rightarrow> Inl err
         | Inr display \<Rightarrow>
            (case getattr c vs ''url'' of
               Inl err \<Rightarrow> Inl err
             | Inr url \<Rightarrow>
                (case escape_val esc url of
                   Inl err \<Rightarrow> Inl err
                 | Inr u \<Rightarrow>
                    if \<not> truthy display then Inr (''<a href='' @ quoted u @ ''/>'')
                    else (case escape_val esc display of
                            Inl err \<Rightarrow> Inl err
                          | Inr d \<Rightarrow> Inr (''<a href='' @ quoted u @ ''>'' @ d @ ''</a>'')))))
      else if c = Br then Inr ''<br/>''
      else if c = Raw then
        (case getattr c vs ''content'' of
           Inl err \<Rightarrow> Inl err
         | Inr (Scalar (PStr s)) \<Rightarrow> Inr s
         | Inr _ \<Rightarrow> Inl TypeError)
      else if c = Message \<or> c = Quote then
        (case getattr c vs ''id'' of
           Inl err \<Rightarrow> Inl err
         | Inr i \<Rightarrow>
            (case (if truthy i then
                     (case escape_val esc i of Inl err \<Rightarrow> Inl err
                      | Inr s \<Rightarrow> Inr [''id='' @ quoted s])
                   else Inr []) of
               Inl err \<Rightarrow> Inl err
             | Inr attr1 \<Rightarrow>
                (case getattr c vs ''forward'' of
                   Inl err \<Rightarrow> Inl err
                 | Inr forward \<Rightarrow>
                    (let attr = attr1 @ (if truthy forward then [''forward''] else []) in
                     case get_type c vs of
                       Inl err \<Rightarrow> Inl err
                     | Inr ty \<Rightarrow>
                        (case getattr c vs ''content'' of
                           Inl err \<Rightarrow> Inl err
                         | Inr content \<Rightarrow>
                            if \<not> truthy content then
                              Inr (''<'' @ ty @ '' '' @ join '' '' attr @ '' />'')
                            else
                              (case content of
                                 ElemList es \<Rightarrow>
                                   (case sequence (map (str_element esc) es) of
                                      Inl err \<Rightarrow> Inl err
                                    | Inr ss \<Rightarrow>
                                       Inr (''<'' @ ty @ '' '' @ join '' '' attr @ ''>''
                                            @ concat ss @ ''</'' @ ty @ ''>''))
                               | Scalar (PStr s) \<Rightarrow>
                                   Inr (''<'' @ ty @ '' '' @ join '' '' attr @ ''>''
                                        @ s @ ''</'' @ ty @ ''>'')
                               | Scalar _ \<Rightarrow> Inl TypeError))))))
      else (case style_tag c of
              Some tag \<Rightarrow>
                (case getattr c vs ''text'' of
                   Inl err \<Rightarrow> Inl err
                 | Inr t \<Rightarrow>
                    (case escape_val esc t of
                       Inl err \<Rightarrow> Inl err
                     | Inr s \<Rightarrow> Inr (''<'' @ tag @ ''>'' @ s @ ''</'' @ tag @ ''>'')))
            | None \<Rightarrow>
                (case scalar_items (filter (\<lambda>(k, v). \<not> startswith_underscore k) vs) of
                   Inl err \<Rightarrow> Inl err
                 | Inr items \<Rightarrow>
                    (let attrs = join '' '' (map (\<lambda>(k, v). Element_attr esc k v) items) in
                     case get_type c vs of
                       Inl err \<Rightarrow> Inl err
                     | Inr ty \<Rightarrow> Inr (''<'' @ ty @ '' '' @ attrs @ '' />'')))))"
  by pat_completeness auto
termination
proof (relation "measure (\<lambda>(esc, e). size e)", goal_cases)
  case 1
  show ?case by simp
next
  case 2
  then show ?case by (auto simp: less_Suc_eq_le dest: size_member)
next
  case 3
  then show ?case by (auto simp: less_Suc_eq_le dest!: getattr_ElemList dest: size_content')
qed

text \<open>
  Modelled from the spec: \<open>escape\<close>, the escaping primitive of parser.py, which is not
  among the sources. Spec, section 6: the reserved characters \<open>&\<close>, \<open><\<close>, \<open>>\<close> and the
  double quote are escaped; the entity names are the XML ones. The renderer above takes
  the primitive as its parameter \<open>esc\<close>; this definition serves concrete evaluations.
\<close>

definition escape_char :: "char \<Rightarrow> string" where
  "escape_char c =
     (if c = CHR ''&'' then ''&amp;''
      else if c = CHR ''<'' then ''&lt;''
      else if c = CHR ''>'' then ''&gt;''
      else if c = CHR 0x22 then ''&quot;''
      else [c])"

definition escape :: "string \<Rightarrow> string" where
  "escape s = concat (map escape_char s)"

subsection \<open>Builders: \<open>At.all\<close> and \<open>Resource.of\<close>\<close>

text \<open>\<open>At.all(here)\<close> is \<open>At(type="here" if here else "all")\<close>.\<close>

definition At_all :: "bool \<Rightarrow> error + element" where
  "At_all here = init At [(''type'', Scalar (PStr (if here then ''here'' else ''all'')))]"

text \<open>\<open>base64.b64encode(bd).decode()\<close> of the standard library, on bytes.\<close>

type_synonym byte = "8 word"

definition b64_char :: "nat \<Rightarrow> char" where
  "b64_char n =
     ''ABCDEFGHIJKLMNOPQRSTUVWXYZabcdefghijklmnopqrstuvwxyz0123456789+/'' ! n"

fun b64encode :: "byte list \<Rightarrow> string" where
  "b64encode [] = []"
| "b64encode [a] =
     (let x = unat a in
      [b64_char (x div 4), b64_char ((x mod 4) * 16), CHR ''='', CHR ''=''])"
| "b64encode [a, b] =
     (let x = unat a; y = unat b in
      [b64_char (x div 4), b64_char ((x mod 4) * 16 + y div 16),
       b64_char ((y mod 16) * 4), CHR ''=''])"
| "b64encode (a # b # c # rest) =
     (let x = unat a; y = unat b; z = unat c in
      [b64_char (x div 4), b64_char ((x mod 4) * 16 + y div 16),
       b64_char ((y mod 16) * 4 + z div 64), b64_char (z mod 64)] @ b64encode rest)"

text \<open>
  The arguments of \<open>Resource.of\<close>: \<open>path\<close> is a \<open>str\<close> or a \<open>Path\<close> (a \<open>Path\<close> is always
  true, a \<open>str\<close> only when not empty); \<open>raw\<close> is \<open>bytes\<close> or a \<open>BytesIO\<close> (a \<open>BytesIO\<close> is
  always true, \<open>bytes\<close> only when not empty).
\<close>

datatype path_arg = PathStr string | PathObj string

datatype raw_arg = RawBytes "byte list" | RawBytesIO "byte list"

fun truthy_path :: "path_arg option \<Rightarrow> bool" where
  "truthy_path None = False"
| "truthy_path (Some (PathStr s)) = (s \<noteq> [])"
| "truthy_path (Some (PathObj s)) = True"

fun truthy_raw :: "raw_arg option \<Rightarrow> bool" where
  "truthy_raw None = False"
| "truthy_raw (Some (RawBytes bs)) = (bs \<noteq> [])"
| "truthy_raw (Some (RawBytesIO bs)) = True"

fun truthy_str :: "string option \<Rightarrow> bool" where
  "truthy_str None = False"
| "truthy_str (Some s) = (s \<noteq> [])"

fun path_text :: "path_arg \<Rightarrow> string" where
  "path_text (PathStr s) = s"
| "path_text (PathObj s) = s"

text \<open>\<open>bd = raw.getvalue() if isinstance(raw, BytesIO) else raw\<close>.\<close>

fun raw_value :: "raw_arg \<Rightarrow> byte list" where
  "raw_value (RawBytes bs) = bs"
| "raw_value (RawBytesIO bs) = bs"

text \<open>
  \<open>Resource.of\<close>, a class method: \<open>c\<close> is the class it is called on. \<open>as_uri\<close> stands
  for \<open>Path(path).as_uri()\<close> of the standard library, which raises on a relative path.
  \<open>data\<close> starts as \<open>{"extra": extra}\<close> and every branch that does not raise replaces
  it, so \<open>extra\<close> never reaches the constructor.
\<close>

definition Resource_of ::
  "(string \<Rightarrow> error + string) \<Rightarrow> cls \<Rightarrow> string option \<Rightarrow> path_arg option \<Rightarrow> raw_arg option
   \<Rightarrow> string option \<Rightarrow> (string \<times> scalar) list option \<Rightarrow> bool option \<Rightarrow> string option
   \<Rightarrow> error + element" where
  "Resource_of as_uri c url path raw mime extra cache timeout =
     (case (case url of
              Some u \<Rightarrow> Inr [(''src'', Scalar (PStr u))]
            | None \<Rightarrow>
               if truthy_path path then
                 (case as_uri (path_text (the path)) of
                    Inl e \<Rightarrow> Inl e
                  | Inr u \<Rightarrow> Inr [(''src'', Scalar (PStr u))])
               else if truthy_raw raw \<and> truthy_str mime then
                 Inr [(''src'', Scalar (PStr (''data:'' @ the mime @ '';base64,''
                        @ b64encode (raw_value (the raw)))))]
               else Inl ValueError) of
        Inl e \<Rightarrow> Inl e
      | Inr data0 \<Rightarrow>
         (let data1 = (case cache of None \<Rightarrow> data0
                       | Some b \<Rightarrow> AList.update ''cache'' (Scalar (PBool b)) data0);
              data2 = (case timeout of None \<Rightarrow> data1
                       | Some t \<Rightarrow> AList.update ''timeout'' (Scalar (PStr t)) data1)
          in init c data2))"

subsection \<open>Auxiliary notions for the statements\<close>

text \<open>
  A stand-in for \<open>Path(path).as_uri()\<close> in closed examples. It agrees with the library
  on an absolute POSIX path that is already normal (no doubled or trailing slash, no
  dot segment) and made of unreserved characters, which becomes \<open>file://\<close> followed by
  the path, and on a relative path, which raises \<open>ValueError\<close>; the library also
  normalises and percent-encodes, which this does not. It is applied only to such
  paths, and the general theorems hold for every \<open>as_uri\<close>.
\<close>

definition file_uri :: "string \<Rightarrow> error + string" where
  "file_uri p = (if take 1 p = ''/'' then Inr (''file://'' @ p) else Inl ValueError)"

text \<open>The classes that have \<open>of\<close>: \<open>Resource\<close> and its subclasses.\<close>

definition resource_classes :: "cls set" where
  "resource_classes = {Resource, Image_cls, Audio, Video, File}"


text \<open>The instance dictionary of \<open>cls(src=..., cache=..., timeout=...)\<close> for a resource class.\<close>

definition resource_vars :: "cls \<Rightarrow> string \<Rightarrow> bool option \<Rightarrow> string option \<Rightarrow> (string \<times> val) list" where
  "resource_vars c src cache timeout =
     [(''src'', Scalar (PStr src)),
      (''cache'', case cache of None \<Rightarrow> Scalar PNone | Some b \<Rightarrow> Scalar (PBool b)),
      (''timeout'', case timeout of None \<Rightarrow> Scalar PNone | Some t \<Rightarrow> Scalar (PStr t))]
     @ (if c = Image_cls then [(''width'', Scalar PNone), (''height'', Scalar PNone)] else [])"


section \<open>Properties\<close>

subsection \<open>Every result of a \<open>from_raw\<close> is an instance of the class asked for\<close>

lemma setattr_loop_Obj: "\<exists>vs'. setattr_loop keep kvs (Obj c vs) = Obj c vs'"
  by (induction kvs arbitrary: vs) auto

lemma init_is_Obj: "init c kwargs = Inr res \<Longrightarrow> \<exists>vs. res = Obj c vs"
  by (auto simp: init_def split: if_splits sum.splits)

lemma Element_from_raw_is_Obj:
  "Element_from_raw c raw = Inr res \<Longrightarrow> \<exists>vs. res = Obj c vs"
  using setattr_loop_Obj
  by (fastforce simp: Element_from_raw_def Let_def split: sum.splits dest!: init_is_Obj)



lemmas table_defs = ELEMENT_TYPE_MAP_def STYLE_TYPE_MAP_def

lemmas eval_defs = table_defs Element_from_raw_def Link_from_raw_def Style_from_raw_def
  init_def field_names_def optional_def required_def dict_get_def

lemmas render_defs = getattr_def get_type_def optional_def required_def

subsection \<open>Shape of the result of \<open>transform\<close>\<close>

text \<open>
  C10. Whenever \<open>transform\<close> returns, the list it returns has the length of its input:
  every sibling node gives one element. A node with a tag outside every dispatch table
  becomes one \<open>Custom\<close> element that holds the transformed children; a \<open>message\<close>
  node with children becomes one \<open>Message\<close> object whose \<open>content\<close> is the transformed
  children, and a \<open>quote\<close> node with children one \<open>Quote\<close> object whose \<open>content\<close> is
  the transformed children.
\<close>

theorem transform_length:
  "(transform rs = Inr es \<longrightarrow> length es = length rs)
   \<and> (map_of ELEMENT_TYPE_MAP t = None \<and> map_of STYLE_TYPE_MAP t = None
        \<and> t \<notin> {''a'', ''link'', ''br'', ''newline'', ''message'', ''quote''}
        \<and> transform [RawElement t attrs children] = Inr es'
      \<longrightarrow> (\<exists>cs. transform children = Inr cs \<and> es' = [Custom t attrs (Some cs)]))
   \<and> (kids \<noteq> [] \<and> transform [RawElement ''message'' mattrs kids] = Inr mes
      \<longrightarrow> (\<exists>cs vs. transform kids = Inr cs \<and> mes = [Obj Message vs]
            \<and> map_of vs ''content'' = Some (ElemList cs)))
   \<and> (qkids \<noteq> [] \<and> transform [RawElement ''quote'' qattrs qkids] = Inr qes
      \<longrightarrow> (\<exists>cs vs. transform qkids = Inr cs \<and> qes = [Obj Quote vs]
            \<and> map_of vs ''content'' = Some (ElemList cs)))"
proof (intro conjI impI)
  assume "transform rs = Inr es"
  then show "length es = length rs"
    by (induction rs arbitrary: es) (auto split: sum.splits)
next
  assume "map_of ELEMENT_TYPE_MAP t = None \<and> map_of STYLE_TYPE_MAP t = None
        \<and> t \<notin> {''a'', ''link'', ''br'', ''newline'', ''message'', ''quote''}
        \<and> transform [RawElement t attrs children] = Inr es'"
  then show "\<exists>cs. transform children = Inr cs \<and> es' = [Custom t attrs (Some cs)]"
    by (auto split: sum.splits)
next
  assume a: "kids \<noteq> [] \<and> transform [RawElement ''message'' mattrs kids] = Inr mes"
  have tab: "map_of ELEMENT_TYPE_MAP ''message'' = None" "map_of STYLE_TYPE_MAP ''message'' = None"
    by (simp_all add: table_defs)
  from a obtain res cs where
    r: "Element_from_raw Message (RawElement ''message'' mattrs kids) = Inr res"
    and c: "transform kids = Inr cs"
    and e: "mes = [setattr res ''content'' (ElemList cs)]"
    by (auto simp: tab split: sum.splits)
  from r obtain vs where "res = Obj Message vs"
    by (auto dest: Element_from_raw_is_Obj)
  with c e show "\<exists>cs vs. transform kids = Inr cs \<and> mes = [Obj Message vs]
            \<and> map_of vs ''content'' = Some (ElemList cs)"
    by (auto simp: update_conv')
next
  assume a: "qkids \<noteq> [] \<and> transform [RawElement ''quote'' qattrs qkids] = Inr qes"
  have tab: "map_of ELEMENT_TYPE_MAP ''quote'' = None" "map_of STYLE_TYPE_MAP ''quote'' = None"
    by (simp_all add: table_defs)
  from a obtain res cs where
    r: "Element_from_raw Quote (RawElement ''quote'' qattrs qkids) = Inr res"
    and c: "transform qkids = Inr cs"
    and e: "qes = [setattr res ''content'' (ElemList cs)]"
    by (auto simp: tab split: sum.splits)
  from r obtain vs where "res = Obj Quote vs"
    by (auto dest: Element_from_raw_is_Obj)
  with c e show "\<exists>cs vs. transform qkids = Inr cs \<and> qes = [Obj Quote vs]
            \<and> map_of vs ''content'' = Some (ElemList cs)"
    by (auto simp: update_conv')
qed

theorem transform_length_witness:
  "transform [RawElement ''foo'' [(''a'', PInt 1)] [RawElement ''br'' [] []],
              RawElement ''message'' [] [RawElement ''text'' [(''text'', PStr ''hi'')] []],
              RawElement ''quote'' [(''id'', PStr ''7'')]
                [RawElement ''text'' [(''text'', PStr ''yo'')] [], RawElement ''br'' [] []]]
     = Inr [Custom ''foo'' [(''a'', PInt 1)] (Some [Obj Br [(''text'', Scalar (PStr [CHR 0x0A]))]]),
            Obj Message [(''id'', Scalar PNone), (''forward'', Scalar PNone),
              (''content'', ElemList [Obj Text [(''text'', Scalar (PStr ''hi''))]])],
            Obj Quote [(''id'', Scalar (PStr ''7'')), (''forward'', Scalar PNone),
              (''content'', ElemList [Obj Text [(''text'', Scalar (PStr ''yo''))],
                                      Obj Br [(''text'', Scalar (PStr [CHR 0x0A]))]])]]
   \<and> length [Custom ''foo'' [(''a'', PInt 1)] (Some [Obj Br [(''text'', Scalar (PStr [CHR 0x0A]))]]),
            Obj Message [(''id'', Scalar PNone), (''forward'', Scalar PNone),
              (''content'', ElemList [Obj Text [(''text'', Scalar (PStr ''hi''))]])],
            Obj Quote [(''id'', Scalar (PStr ''7'')), (''forward'', Scalar PNone),
              (''content'', ElemList [Obj Text [(''text'', Scalar (PStr ''yo''))],
                                      Obj Br [(''text'', Scalar (PStr [CHR 0x0A]))]])]]
     = length [RawElement ''foo'' [(''a'', PInt 1)] [RawElement ''br'' [] []],
              RawElement ''message'' [] [RawElement ''text'' [(''text'', PStr ''hi'')] []],
              RawElement ''quote'' [(''id'', PStr ''7'')]
                [RawElement ''text'' [(''text'', PStr ''yo'')] [], RawElement ''br'' [] []]]
   \<and> map_of ELEMENT_TYPE_MAP ''foo'' = None \<and> map_of STYLE_TYPE_MAP ''foo'' = None
   \<and> ''foo'' \<notin> {''a'', ''link'', ''br'', ''newline'', ''message'', ''quote''}
   \<and> transform [RawElement ''foo'' [(''a'', PInt 1)] [RawElement ''br'' [] []]]
     = Inr [Custom ''foo'' [(''a'', PInt 1)] (Some [Obj Br [(''text'', Scalar (PStr [CHR 0x0A]))]])]
   \<and> transform [RawElement ''br'' [] []] = Inr [Obj Br [(''text'', Scalar (PStr [CHR 0x0A]))]]
   \<and> [RawElement ''text'' [(''text'', PStr ''hi'')] []] \<noteq> []
   \<and> transform [RawElement ''message'' [] [RawElement ''text'' [(''text'', PStr ''hi'')] []]]
     = Inr [Obj Message [(''id'', Scalar PNone), (''forward'', Scalar PNone),
              (''content'', ElemList [Obj Text [(''text'', Scalar (PStr ''hi''))]])]]
   \<and> transform [RawElement ''text'' [(''text'', PStr ''hi'')] []]
     = Inr [Obj Text [(''text'', Scalar (PStr ''hi''))]]
   \<and> [RawElement ''text'' [(''text'', PStr ''yo'')] [], RawElement ''br'' [] []] \<noteq> []
   \<and> transform [RawElement ''quote'' [(''id'', PStr ''7'')]
                [RawElement ''text'' [(''text'', PStr ''yo'')] [], RawElement ''br'' [] []]]
     = Inr [Obj Quote [(''id'', Scalar (PStr ''7'')), (''forward'', Scalar PNone),
              (''content'', ElemList [Obj Text [(''text'', Scalar (PStr ''yo''))],
                                      Obj Br [(''text'', Scalar (PStr [CHR 0x0A]))]])]]
   \<and> transform [RawElement ''text'' [(''text'', PStr ''yo'')] [], RawElement ''br'' [] []]
     = Inr [Obj Text [(''text'', Scalar (PStr ''yo''))],
            Obj Br [(''text'', Scalar (PStr [CHR 0x0A]))]]"
  using transform_length [where
    rs = "[RawElement ''foo'' [(''a'', PInt 1)] [RawElement ''br'' [] []],
      RawElement ''message'' [] [RawElement ''text'' [(''text'', PStr ''hi'')] []],
      RawElement ''quote'' [(''id'', PStr ''7'')]
        [RawElement ''text'' [(''text'', PStr ''yo'')] [], RawElement ''br'' [] []]]"
    and es = "[Custom ''foo'' [(''a'', PInt 1)] (Some [Obj Br [(''text'', Scalar (PStr [CHR 0x0A]))]]),
            Obj Message [(''id'', Scalar PNone), (''forward'', Scalar PNone),
              (''content'', ElemList [Obj Text [(''text'', Scalar (PStr ''hi''))]])],
            Obj Quote [(''id'', Scalar (PStr ''7'')), (''forward'', Scalar PNone),
              (''content'', ElemList [Obj Text [(''text'', Scalar (PStr ''yo''))],
                                      Obj Br [(''text'', Scalar (PStr [CHR 0x0A]))]])]]"
    and t = "''foo''" and attrs = "[(''a'', PInt 1)]" and children = "[RawElement ''br'' [] []]"
    and es' = "[Custom ''foo'' [(''a'', PInt 1)] (Some [Obj Br [(''text'', Scalar (PStr [CHR 0x0A]))]])]"
    and kids = "[RawElement ''text'' [(''text'', PStr ''hi'')] []]" and mattrs = "[]"
    and mes = "[Obj Message [(''id'', Scalar PNone), (''forward'', Scalar PNone),
              (''content'', ElemList [Obj Text [(''text'', Scalar (PStr ''hi''))]])]]"
    and qkids = "[RawElement ''text'' [(''text'', PStr ''yo'')] [], RawElement ''br'' [] []]"
    and qattrs = "[(''id'', PStr ''7'')]"
    and qes = "[Obj Quote [(''id'', Scalar (PStr ''7'')), (''forward'', Scalar PNone),
              (''content'', ElemList [Obj Text [(''text'', Scalar (PStr ''yo''))],
                                      Obj Br [(''text'', Scalar (PStr [CHR 0x0A]))]])]]"]
  by (simp add: eval_defs)

subsection \<open>Dispatch order of \<open>transform\<close>\<close>

lemma style_not_elsewhere:
  "map_of STYLE_TYPE_MAP t = Some c \<Longrightarrow>
   map_of ELEMENT_TYPE_MAP t = None \<and> t \<noteq> ''a'' \<and> t \<noteq> ''link''"
  by (auto simp: table_defs split: if_splits)

lemma init_style: "map_of STYLE_TYPE_MAP t = Some c \<Longrightarrow>
  init c [(''text'', Scalar s)] = Inr (Obj c [(''text'', Scalar s)])"
  by (auto simp: table_defs init_def field_names_def required_def split: if_splits)




subsection \<open>Overwriting of fixed fields by \<open>setattr\<close>\<close>

text \<open>
  C3. The claim: a node attribute named like a fixed field never overwrites the value the
  construction rule gave that field. \<open>Element.from_raw\<close> keeps to this (the \<open>sharp\<close>
  node below: fields go to the constructor, the rest to \<open>setattr\<close>), but
  \<open>Style.from_raw\<close> assigns every node attribute and \<open>Link.from_raw\<close> every attribute
  but \<open>href\<close>. On \<open><b text="x">hi</b>\<close> the field \<open>text\<close> ends as \<open>x\<close>, not the child's
  \<open>hi\<close>; on \<open><a href="https://x" url="https://y"/>\<close> the field \<open>url\<close> ends as
  \<open>https://y\<close>, not the \<open>href\<close>.
\<close>

theorem from_raw_fixed_field_overwritten:
  "transform [RawElement ''b'' [(''text'', PStr ''x'')] [RawElement ''text'' [(''text'', PStr ''hi'')] []]]
     = Inr [Obj Bold [(''text'', Scalar (PStr ''x''))]]
   \<and> transform [RawElement ''a'' [(''href'', PStr ''https://x''), (''url'', PStr ''https://y'')] []]
     = Inr [Obj Link [(''url'', Scalar (PStr ''https://y'')), (''display'', Scalar PNone)]]
   \<and> transform [RawElement ''sharp'' [(''id'', PStr ''1''), (''zz'', PStr ''2'')] []]
     = Inr [Obj Sharp [(''id'', Scalar (PStr ''1'')), (''name'', Scalar PNone), (''zz'', Scalar (PStr ''2''))]]"
  by (simp add: eval_defs)

text \<open>
  C4. The claim: a style node takes its text from the first child's \<open>text\<close> attribute,
  fails without children, and stores only the node attributes other than the text
  payload. A childless node does raise (\<open>IndexError\<close>), but the loop of
  \<open>Style.from_raw\<close> stores every node attribute, a \<open>text\<close> attribute included: on
  \<open><i text="shadow" id="7">hi</i>\<close> the element's text is \<open>shadow\<close> and it renders as
  \<open><i>shadow</i>\<close>.
\<close>

theorem Style_from_raw_text_stashed:
  "transform [RawElement ''i'' [(''text'', PStr ''shadow''), (''id'', PStr ''7'')]
               [RawElement ''text'' [(''text'', PStr ''hi'')] []]]
     = Inr [Obj Italic [(''text'', Scalar (PStr ''shadow'')), (''id'', Scalar (PStr ''7''))]]
   \<and> str_element escape (Obj Italic [(''text'', Scalar (PStr ''shadow'')), (''id'', Scalar (PStr ''7''))])
     = Inr ''<i>shadow</i>''
   \<and> transform [RawElement ''i'' [(''id'', PStr ''7'')] []] = Inl IndexError"
  by (simp add: eval_defs render_defs escape_def escape_char_def)

text \<open>
  C8. The claim: an anchor node needs \<open>href\<close>; the first child's \<open>text\<close> becomes the
  display, and without a child the display is \<open>None\<close>; a link without display renders
  self-closing. A node without \<open>href\<close> does raise (\<open>KeyError\<close>), but the loop of
  \<open>Link.from_raw\<close> skips only \<open>href\<close>, so a node attribute \<open>display\<close> replaces the
  display: on \<open><a href="https://x" display="d"/>\<close> (no child) the display is \<open>d\<close>, not
  \<open>None\<close>, and the link renders as \<open><a href="https://x">d</a>\<close>; with a child \<open>t\<close> the
  display is \<open>d\<close> as well.
\<close>

theorem Link_from_raw_display_overwritten:
  "transform [RawElement ''a'' [(''href'', PStr ''https://x''), (''display'', PStr ''d'')] []]
     = Inr [Obj Link [(''url'', Scalar (PStr ''https://x'')), (''display'', Scalar (PStr ''d''))]]
   \<and> transform [RawElement ''link'' [(''href'', PStr ''https://x''), (''display'', PStr ''d'')]
                 [RawElement ''text'' [(''text'', PStr ''t'')] []]]
     = Inr [Obj Link [(''url'', Scalar (PStr ''https://x'')), (''display'', Scalar (PStr ''d''))]]
   \<and> str_element escape (Obj Link [(''url'', Scalar (PStr ''https://x'')), (''display'', Scalar (PStr ''d''))])
     = Inr (''<a href='' @ quoted ''https://x'' @ ''>d</a>'')
   \<and> transform [RawElement ''a'' [(''display'', PStr ''d'')] []] = Inl KeyError
   \<and> transform [RawElement ''a'' [(''href'', PStr ''https://x'')] []]
     = Inr [Obj Link [(''url'', Scalar (PStr ''https://x'')), (''display'', Scalar PNone)]]
   \<and> str_element escape (Obj Link [(''url'', Scalar (PStr ''https://x'')), (''display'', Scalar PNone)])
     = Inr (''<a href='' @ quoted ''https://x'' @ ''/>'')"
  by (simp add: eval_defs render_defs quoted_def escape_def escape_char_def)

subsection \<open>Where the node does not name a fixed field\<close>

text \<open>
  Apart from node attributes named \<open>text\<close> (styles) or \<open>url\<close>, \<open>display\<close> (anchors), the
  two \<open>from_raw\<close> methods give the fields the values of their construction rule: the
  text of a style element is the first child's \<open>text\<close>; the url of a link is the
  \<open>href\<close> and its display the first child's \<open>text\<close>, or \<open>None\<close> without a child. A
  childless style node raises \<open>IndexError\<close>, an anchor without \<open>href\<close> raises \<open>KeyError\<close>,
  and a link without display renders self-closing.
\<close>

lemma setattr_loop_other:
  "name \<notin> set (map fst kvs) \<Longrightarrow> setattr_loop keep kvs (Obj c vs) = Obj c vs' \<Longrightarrow>
   map_of vs' name = map_of vs name"
  by (induction kvs arbitrary: vs) (auto simp: update_conv' split: if_splits)

lemma Style_from_raw_without_text_attr:
  assumes "map_of STYLE_TYPE_MAP t = Some c"
    and "map_of (raw_attrs child) ''text'' = Some tx"
    and "''text'' \<notin> set (map fst attrs)"
  shows "\<exists>vs. transform [RawElement t attrs (child # rest)] = Inr [Obj c vs]
              \<and> map_of vs ''text'' = Some (Scalar tx)"
proof -
  obtain vs where vs: "setattr_loop (\<lambda>k. True) attrs (Obj c [(''text'', Scalar tx)]) = Obj c vs"
    using setattr_loop_Obj by blast
  from setattr_loop_other [OF assms(3) vs] have "map_of vs ''text'' = Some (Scalar tx)"
    by simp
  moreover from assms(2) vs
  have "Style_from_raw c (RawElement t attrs (child # rest)) = Inr (Obj c vs)"
    by (simp add: Style_from_raw_def dict_get_def init_style [OF assms(1)])
  then have "transform [RawElement t attrs (child # rest)] = Inr [Obj c vs]"
    using style_not_elsewhere [OF assms(1)] by (simp add: assms(1))
  ultimately show ?thesis by blast
qed

lemma Link_from_raw_without_field_attrs:
  assumes "t = ''a'' \<or> t = ''link''"
    and "map_of attrs ''href'' = Some h"
    and "''url'' \<notin> set (map fst attrs)" and "''display'' \<notin> set (map fst attrs)"
    and "children = [] \<and> d = PNone
         \<or> (\<exists>child rest. children = child # rest \<and> map_of (raw_attrs child) ''text'' = Some d)"
  shows "\<exists>vs. transform [RawElement t attrs children] = Inr [Obj Link vs]
              \<and> map_of vs ''url'' = Some (Scalar h) \<and> map_of vs ''display'' = Some (Scalar d)"
proof -
  obtain vs where vs: "setattr_loop (\<lambda>k. k \<noteq> ''href'') attrs
      (Obj Link [(''url'', Scalar h), (''display'', Scalar d)]) = Obj Link vs"
    using setattr_loop_Obj by blast
  from setattr_loop_other [OF assms(3) vs] setattr_loop_other [OF assms(4) vs]
  have m: "map_of vs ''url'' = Some (Scalar h)" "map_of vs ''display'' = Some (Scalar d)"
    by simp_all
  from assms(2,5) vs have "Link_from_raw (RawElement t attrs children) = Inr (Obj Link vs)"
    by (auto simp: Link_from_raw_def dict_get_def init_def field_names_def
        optional_def required_def)
  moreover from assms(1) have "map_of ELEMENT_TYPE_MAP t = None"
    by (auto simp: table_defs)
  ultimately have "transform [RawElement t attrs children] = Inr [Obj Link vs]"
    using assms(1) by auto
  with m show ?thesis by blast
qed

lemma Link_from_raw_without_href:
  "t = ''a'' \<or> t = ''link'' \<Longrightarrow> map_of attrs ''href'' = None \<Longrightarrow>
   transform [RawElement t attrs children] = Inl KeyError"
  by (auto simp: table_defs Link_from_raw_def dict_get_def)

lemma Style_from_raw_without_children:
  "map_of STYLE_TYPE_MAP t = Some c \<Longrightarrow> transform [RawElement t attrs []] = Inl IndexError"
  using style_not_elsewhere [of t c] by (simp add: Style_from_raw_def)

lemma Link_render_without_display:
  "str_element esc (Obj Link [(''url'', Scalar (PStr u)), (''display'', Scalar PNone)])
   = Inr (''<a href='' @ quoted (esc u) @ ''/>'')"
  by (simp add: render_defs)

subsection \<open>Rendering\<close>

text \<open>
  C2. The claim: \<open>At.all()\<close> renders as \<open><at type="all" />\<close>. \<open>At\<close> inherits
  \<open>Element.__str__\<close>, which writes every entry of the instance dictionary, and the
  constructor has stored \<open>None\<close> for \<open>id\<close>, \<open>name\<close> and \<open>role\<close>: whatever the escaping
  primitive is, the result starts with \<open><at id=\<close> and is not the claimed string. With the
  escaping of the spec it is \<open><at id="None" name="None" role="None" type="all" />\<close>.
\<close>

theorem At_all_render:
  "At_all False = Inr (Obj At [(''id'', Scalar PNone), (''name'', Scalar PNone),
       (''role'', Scalar PNone), (''type'', Scalar (PStr ''all''))])
   \<and> str_element esc (Obj At [(''id'', Scalar PNone), (''name'', Scalar PNone),
       (''role'', Scalar PNone), (''type'', Scalar (PStr ''all''))])
     = Inr (''<at id='' @ quoted (esc ''None'') @ '' name='' @ quoted (esc ''None'')
            @ '' role='' @ quoted (esc ''None'') @ '' type='' @ quoted (esc ''all'') @ '' />'')
   \<and> str_element esc (Obj At [(''id'', Scalar PNone), (''name'', Scalar PNone),
       (''role'', Scalar PNone), (''type'', Scalar (PStr ''all''))])
     \<noteq> Inr (''<at type='' @ quoted ''all'' @ '' />'')
   \<and> str_element escape (Obj At [(''id'', Scalar PNone), (''name'', Scalar PNone),
       (''role'', Scalar PNone), (''type'', Scalar (PStr ''all''))])
     = Inr (''<at id='' @ quoted ''None'' @ '' name='' @ quoted ''None''
            @ '' role='' @ quoted ''None'' @ '' type='' @ quoted ''all'' @ '' />'')"
  by (simp add: At_all_def init_def field_names_def render_defs quoted_def escape_def escape_char_def)









subsection \<open>\<open>Resource.of\<close>\<close>

lemma init_resource:
  "c \<in> resource_classes \<Longrightarrow>
   init c (case timeout of None \<Rightarrow> (case cache of None \<Rightarrow> [(''src'', Scalar (PStr s))]
                       | Some b \<Rightarrow> AList.update ''cache'' (Scalar (PBool b)) [(''src'', Scalar (PStr s))])
           | Some t \<Rightarrow> AList.update ''timeout'' (Scalar (PStr t))
               (case cache of None \<Rightarrow> [(''src'', Scalar (PStr s))]
                       | Some b \<Rightarrow> AList.update ''cache'' (Scalar (PBool b)) [(''src'', Scalar (PStr s))]))
   = Inr (Obj c (resource_vars c s cache timeout))"
  by (cases cache; cases timeout)
     (auto simp: resource_classes_def resource_vars_def init_def field_names_def optional_def required_def)

text \<open>
  C1, as amended. \<open>Resource.of\<close> needs at least one content source: with no url, no
  path (or an empty one) and no raw bytes with a mime (or an empty one of the two) it
  raises \<open>ValueError\<close> and builds nothing. More than one source is not an error: a url
  is used whatever \<open>path\<close>, \<open>raw\<close> and \<open>mime\<close> are, and without a url a path is used
  whatever \<open>raw\<close> and \<open>mime\<close> are.
\<close>

theorem Resource_of_sources:
  "(url = None \<and> \<not> truthy_path path \<and> \<not> (truthy_raw raw \<and> truthy_str mime)
      \<longrightarrow> Resource_of as_uri c url path raw mime extra cache timeout = Inl ValueError)
   \<and> (c \<in> resource_classes
      \<longrightarrow> Resource_of as_uri c (Some u) path raw mime extra cache timeout
          = Inr (Obj c (resource_vars c u cache timeout)))
   \<and> (c \<in> resource_classes \<and> truthy_path (Some p) \<and> as_uri (path_text p) = Inr uri
      \<longrightarrow> Resource_of as_uri c None (Some p) raw mime extra cache timeout
          = Inr (Obj c (resource_vars c uri cache timeout)))"
proof (intro conjI impI)
  assume "url = None \<and> \<not> truthy_path path \<and> \<not> (truthy_raw raw \<and> truthy_str mime)"
  then show "Resource_of as_uri c url path raw mime extra cache timeout = Inl ValueError"
    by (auto simp: Resource_of_def)
next
  assume "c \<in> resource_classes"
  then show "Resource_of as_uri c (Some u) path raw mime extra cache timeout
          = Inr (Obj c (resource_vars c u cache timeout))"
    by (simp add: Resource_of_def Let_def init_resource)
next
  assume "c \<in> resource_classes \<and> truthy_path (Some p) \<and> as_uri (path_text p) = Inr uri"
  then show "Resource_of as_uri c None (Some p) raw mime extra cache timeout
          = Inr (Obj c (resource_vars c uri cache timeout))"
    by (simp add: Resource_of_def Let_def init_resource)
qed

theorem Resource_of_sources_witness:
  "(None :: string option) = None \<and> \<not> truthy_path (Some (PathStr []))
   \<and> \<not> (truthy_raw (Some (RawBytes [])) \<and> truthy_str (Some ''image/png''))
   \<and> Resource_of file_uri Audio None (Some (PathStr [])) (Some (RawBytes [])) (Some ''image/png'')
        None (Some True) None = Inl ValueError
   \<and> Audio \<in> resource_classes
   \<and> Resource_of file_uri Audio (Some ''https://x/a.mp3'') (Some (PathStr []))
        (Some (RawBytes [])) (Some ''image/png'') None (Some True) None
       = Inr (Obj Audio [(''src'', Scalar (PStr ''https://x/a.mp3'')),
                         (''cache'', Scalar (PBool True)), (''timeout'', Scalar PNone)])
   \<and> truthy_path (Some (PathObj ''/tmp/a.mp3''))
   \<and> file_uri (path_text (PathObj ''/tmp/a.mp3'')) = Inr ''file:///tmp/a.mp3''
   \<and> Resource_of file_uri Audio None (Some (PathObj ''/tmp/a.mp3''))
        (Some (RawBytes [])) (Some ''image/png'') None (Some True) None
       = Inr (Obj Audio [(''src'', Scalar (PStr ''file:///tmp/a.mp3'')),
                         (''cache'', Scalar (PBool True)), (''timeout'', Scalar PNone)])"
  using Resource_of_sources [where as_uri = file_uri and c = Audio and url = None
      and path = "Some (PathStr [])" and raw = "Some (RawBytes [])" and mime = "Some ''image/png''"
      and extra = None and cache = "Some True" and timeout = None
      and u = "''https://x/a.mp3''" and p = "PathObj ''/tmp/a.mp3''" and uri = "''file:///tmp/a.mp3''"]
  by (simp add: resource_classes_def resource_vars_def file_uri_def)

text \<open>
  The claim C1 as written fails: called with both a url and a path, \<open>Image.of\<close> builds
  the element from the url.
\<close>

theorem Resource_of_two_sources:
  "Resource_of file_uri Image_cls (Some ''https://x/a.png'') (Some (PathStr ''/tmp/a.png''))
       None None None None None
     = Inr (Obj Image_cls [(''src'', Scalar (PStr ''https://x/a.png'')), (''cache'', Scalar PNone),
         (''timeout'', Scalar PNone), (''width'', Scalar PNone), (''height'', Scalar PNone)])"
  by (simp add: Resource_of_def init_def field_names_def optional_def required_def)

text \<open>
  C9, as amended. For raw bytes that are not empty (or any \<open>BytesIO\<close>) and a mime that
  is not empty, with no url and no path, \<open>Resource.of\<close> builds the element whose \<open>src\<close>
  is \<open>data:\<close>, the mime, \<open>;base64,\<close> and the base64 text of the bytes; the base64 text
  of the two bytes 1, 2 is \<open>AQI=\<close>.
\<close>

theorem Resource_of_raw:
  "(c \<in> resource_classes \<and> \<not> truthy_path path \<and> truthy_raw (Some r) \<and> m \<noteq> []
      \<longrightarrow> Resource_of as_uri c None path (Some r) (Some m) extra cache timeout
          = Inr (Obj c (resource_vars c
                (''data:'' @ m @ '';base64,'' @ b64encode (raw_value r)) cache timeout)))
   \<and> b64encode [1, 2] = ''AQI=''"
proof (intro conjI impI)
  assume "c \<in> resource_classes \<and> \<not> truthy_path path \<and> truthy_raw (Some r) \<and> m \<noteq> []"
  then show "Resource_of as_uri c None path (Some r) (Some m) extra cache timeout
          = Inr (Obj c (resource_vars c
                (''data:'' @ m @ '';base64,'' @ b64encode (raw_value r)) cache timeout))"
    by (simp add: Resource_of_def Let_def init_resource)
next
  show "b64encode [1, 2] = ''AQI=''"
    by (simp add: b64_char_def)
qed

theorem Resource_of_raw_witness:
  "Resource \<in> resource_classes \<and> \<not> truthy_path None \<and> truthy_raw (Some (RawBytes [1, 2]))
   \<and> ''image/png'' \<noteq> []
   \<and> Resource_of file_uri Resource None None (Some (RawBytes [1, 2])) (Some ''image/png'')
        None None None
       = Inr (Obj Resource [(''src'', Scalar (PStr ''data:image/png;base64,AQI='')),
                            (''cache'', Scalar PNone), (''timeout'', Scalar PNone)])"
  using Resource_of_raw [where as_uri = file_uri and c = Resource and path = None
      and r = "RawBytes [1, 2]" and m = "''image/png''" and extra = None and cache = None
      and timeout = None]
  by (simp add: resource_classes_def resource_vars_def)

text \<open>
  The claim C9 as written fails on the empty byte string: \<open>raw and mime\<close> is false
  there, and the call raises.
\<close>

theorem Resource_of_empty_bytes:
  "Resource_of file_uri Image_cls None None (Some (RawBytes [])) (Some ''image/png'')
       None None None = Inl ValueError"
  by (simp add: Resource_of_def)

end
